theory Spec2Isabelle
  imports Complex_Main
begin

section \<open>Text primitives\<close>

text \<open>
  Python text is modelled as a list of 8-bit characters read as code points below 256
  (so that the cent sign is \<open>0xA2\<close> and the accented letters of the source's
  literals are single characters). Case mapping acts on the ASCII letters; white space
  is the set \<open>str.isspace\<close> and the regular-expression class \<open>\s\<close> accept below 256;
  \<open>\d\<close> is the ASCII digits.
\<close>

datatype error = KeyError | ValueError | TypeError | OperationalError

definition code :: "char \<Rightarrow> nat" where
  "code c = of_char c"

definition is_space :: "char \<Rightarrow> bool" where
  "is_space c = (let n = code c in
     (9 \<le> n \<and> n \<le> 13) \<or> (28 \<le> n \<and> n \<le> 32) \<or> n = 133 \<or> n = 160)"

definition is_digit :: "char \<Rightarrow> bool" where
  "is_digit c = (48 \<le> code c \<and> code c \<le> 57)"

definition is_upper :: "char \<Rightarrow> bool" where
  "is_upper c = (65 \<le> code c \<and> code c \<le> 90)"

definition is_lower :: "char \<Rightarrow> bool" where
  "is_lower c = (97 \<le> code c \<and> code c \<le> 122)"

definition lower_char :: "char \<Rightarrow> char" where
  "lower_char c = (if is_upper c then char_of (code c + 32) else c)"

definition upper_char :: "char \<Rightarrow> char" where
  "upper_char c = (if is_lower c then char_of (code c - 32) else c)"

definition py_lower :: "string \<Rightarrow> string" where
  "py_lower s = map lower_char s"

definition py_upper :: "string \<Rightarrow> string" where
  "py_upper s = map upper_char s"

definition py_strip :: "string \<Rightarrow> string" where
  "py_strip s = rev (dropWhile is_space (rev (dropWhile is_space s)))"

text \<open>\<open>str.title\<close>: a letter that follows a letter is lower-cased, any other letter is
  upper-cased, and every other character is kept and ends the word.\<close>

fun title_from :: "bool \<Rightarrow> string \<Rightarrow> string" where
  "title_from prev [] = []"
| "title_from prev (c # cs) =
     (if is_upper c \<or> is_lower c
      then (if prev then lower_char c else upper_char c) # title_from True cs
      else c # title_from False cs)"

definition py_title :: "string \<Rightarrow> string" where
  "py_title s = title_from False s"

text \<open>\<open>str.replace(old, new)\<close> for a non-empty \<open>old\<close>: the occurrences are replaced from
  left to right and do not overlap. The counter is the number of characters of the
  current occurrence still to be skipped.\<close>

fun replace_from :: "nat \<Rightarrow> string \<Rightarrow> string \<Rightarrow> string \<Rightarrow> string" where
  "replace_from k old new [] = []"
| "replace_from (Suc k) old new (c # cs) = replace_from k old new cs"
| "replace_from 0 old new (c # cs) =
     (if old \<noteq> [] \<and> take (length old) (c # cs) = old
      then new @ replace_from (length old - 1) old new cs
      else c # replace_from 0 old new cs)"

definition py_replace :: "string \<Rightarrow> string \<Rightarrow> string \<Rightarrow> string" where
  "py_replace old new s = replace_from 0 old new s"

text \<open>\<open>int(s)\<close> on a token: the empty token and a token with a character that is not a
  digit raise ValueError.\<close>

definition digit_val :: "char \<Rightarrow> int" where
  "digit_val c = int (code c) - 48"

definition py_int :: "string \<Rightarrow> error + int" where
  "py_int s = (if s = [] \<or> \<not> list_all is_digit s then Inl ValueError
               else Inr (foldl (\<lambda>a c. 10 * a + digit_val c) 0 s))"

section \<open>Regular expressions of the field extractors\<close>

text \<open>
  The patterns of the extractors modelled here are sequences of one-character classes
  under a quantifier. \<open>match_seq\<close> is the backtracking matcher of \<open>re\<close>: each item is
  greedy, and a shorter repetition is tried only when the rest of the pattern fails.
  It returns the text consumed by each item, so that a group is read off by position.
  \<open>re_search\<close> tries the start positions from left to right.
\<close>

datatype quant = One | Opt | Star | Plus

type_synonym item = "(char \<Rightarrow> bool) \<times> quant"

fun countdown :: "nat \<Rightarrow> nat \<Rightarrow> nat list" where
  "countdown lo 0 = (if lo = 0 then [0] else [])"
| "countdown lo (Suc n) = (if lo \<le> Suc n then Suc n # countdown lo n else [])"

definition cands :: "item \<Rightarrow> string \<Rightarrow> nat list" where
  "cands it s =
     (let m = length (takeWhile (fst it) s) in
      case snd it of
        One \<Rightarrow> (if 1 \<le> m then [1] else [])
      | Opt \<Rightarrow> (if 1 \<le> m then [1, 0] else [0])
      | Star \<Rightarrow> countdown 0 m
      | Plus \<Rightarrow> countdown 1 m)"

fun first_some :: "('a \<Rightarrow> 'b option) \<Rightarrow> 'a list \<Rightarrow> 'b option" where
  "first_some f [] = None"
| "first_some f (x # xs) = (case f x of Some y \<Rightarrow> Some y | None \<Rightarrow> first_some f xs)"

primrec match_seq :: "item list \<Rightarrow> string \<Rightarrow> string list option" where
  "match_seq [] s = Some []"
| "match_seq (it # its) s =
     first_some (\<lambda>n. map_option (\<lambda>segs. take n s # segs) (match_seq its (drop n s)))
       (cands it s)"

fun re_search :: "item list \<Rightarrow> string \<Rightarrow> string list option" where
  "re_search its [] = match_seq its []"
| "re_search its (c # cs) =
     (case match_seq its (c # cs) of
        Some segs \<Rightarrow> Some segs
      | None \<Rightarrow> re_search its cs)"

definition lit :: "char \<Rightarrow> char \<Rightarrow> bool" where
  "lit a c = (c = a)"

section \<open>Field extractors (scrapers/utils/parsers.py)\<close>

definition price_token :: "char \<Rightarrow> bool" where
  "price_token c = (is_digit c \<or> c = CHR '','' \<or> c = CHR ''.'')"

definition space_or_comma :: "char \<Rightarrow> bool" where
  "space_or_comma c = (is_space c \<or> c = CHR '','')"

definition cent_sign :: char where
  "cent_sign = char_of (162 :: nat)"

text \<open>\<open>currency \s* ([\d,\.]+)\<close>; group 1 is the third item.\<close>

definition price_pattern :: "char \<Rightarrow> item list" where
  "price_pattern cur = [(lit cur, One), (is_space, Star), (price_token, Plus)]"

definition extract_price :: "char \<Rightarrow> string \<Rightarrow> error + int option" where
  "extract_price cur text =
     (case re_search (price_pattern cur) (py_replace '','' [] text) of
        Some [_, _, g] \<Rightarrow>
          (case py_int (py_replace '','' [] (py_replace ''.'' [] g)) of
             Inl e \<Rightarrow> Inl e
           | Inr n \<Rightarrow> Inr (Some n))
      | _ \<Rightarrow> Inr None)"

definition extract_price_colones :: "string \<Rightarrow> error + int option" where
  "extract_price_colones text = extract_price cent_sign text"

definition extract_price_usd :: "string \<Rightarrow> error + int option" where
  "extract_price_usd text = extract_price (CHR ''$'') text"

text \<open>\<open>(\d+)[\s,]*k?m?s?\s*km\<close> and \<open>(\d+)[\s,]*mil\<close>; group 1 is the first item.\<close>

definition km_pattern :: "item list" where
  "km_pattern =
     [(is_digit, Plus), (space_or_comma, Star), (lit CHR ''k'', Opt), (lit CHR ''m'', Opt),
      (lit CHR ''s'', Opt), (is_space, Star), (lit CHR ''k'', One), (lit CHR ''m'', One)]"

definition mil_pattern :: "item list" where
  "mil_pattern =
     [(is_digit, Plus), (space_or_comma, Star), (lit CHR ''m'', One), (lit CHR ''i'', One),
      (lit CHR ''l'', One)]"

definition times_1000 :: "string \<Rightarrow> error + int option" where
  "times_1000 g = (case py_int g of Inl e \<Rightarrow> Inl e | Inr n \<Rightarrow> Inr (Some (n * 1000)))"

definition extract_mileage :: "string \<Rightarrow> error + int option" where
  "extract_mileage text =
     (case re_search km_pattern (py_lower text) of
        Some (g # _) \<Rightarrow> times_1000 g
      | _ \<Rightarrow>
        (case re_search mil_pattern (py_lower text) of
           Some (g # _) \<Rightarrow> times_1000 g
         | _ \<Rightarrow> Inr None))"

section \<open>Batches of records\<close>

text \<open>
  A batch is a pandas DataFrame read from the raw store. Its columns are those of the
  \<open>vehicles\<close> table (db_manager.py) and the ones the cleaner derives; each may be absent
  from a batch (\<open>None\<close>), and a present column holds one cell per row, \<open>None\<close> being
  the null (None or NaN). TEXT columns hold strings and INTEGER columns numbers. Stored
  numbers are exact rationals; the quotient of two columns is a float that may also be
  an infinity (division by zero) or NaN, which is the null. Rounding and signed zeros
  are not modelled. \<open>extra\<close> holds the columns the ETL never names.
\<close>

datatype xnum = Fin rat | PInf | NInf

type_synonym text_col = "string option list"
type_synonym num_col = "rat option list"
type_synonym xnum_col = "xnum option list"

record frame =
  nrows :: nat
  url :: "text_col option"
  vehicle_id :: "text_col option"
  brand :: "text_col option"
  model :: "text_col option"
  year :: "num_col option"
  price_colones :: "num_col option"
  price_usd :: "num_col option"
  mileage :: "num_col option"
  fuel_type :: "text_col option"
  engine_cc :: "num_col option"
  doors :: "num_col option"
  style :: "text_col option"
  color_exterior :: "text_col option"
  color_interior :: "text_col option"
  location :: "text_col option"
  province :: "text_col option"
  seller_phone :: "text_col option"
  features :: "text_col option"
  exchange_rate :: "xnum_col option"
  price_flag :: "bool list option"
  vehicle_age :: "num_col option"
  price_per_year :: "xnum_col option"
  is_luxury :: "bool list option"
  extra :: "(string \<times> text_col) list"

definition present :: "string \<Rightarrow> 'a list option \<Rightarrow> (string \<times> nat) list" where
  "present name col = (case col of None \<Rightarrow> [] | Some xs \<Rightarrow> [(name, length xs)])"

text \<open>The present columns, each with its length.\<close>

definition column_sizes :: "frame \<Rightarrow> (string \<times> nat) list" where
  "column_sizes df =
     present ''url'' (url df) @ present ''vehicle_id'' (vehicle_id df) @
     present ''brand'' (brand df) @ present ''model'' (model df) @
     present ''year'' (year df) @ present ''price_colones'' (price_colones df) @
     present ''price_usd'' (price_usd df) @ present ''mileage'' (mileage df) @
     present ''fuel_type'' (fuel_type df) @ present ''engine_cc'' (engine_cc df) @
     present ''doors'' (doors df) @ present ''style'' (style df) @
     present ''color_exterior'' (color_exterior df) @
     present ''color_interior'' (color_interior df) @
     present ''location'' (location df) @ present ''province'' (province df) @
     present ''seller_phone'' (seller_phone df) @ present ''features'' (features df) @
     present ''exchange_rate'' (exchange_rate df) @ present ''price_flag'' (price_flag df) @
     present ''vehicle_age'' (vehicle_age df) @
     present ''price_per_year'' (price_per_year df) @
     present ''is_luxury'' (is_luxury df) @
     map (\<lambda>(name, xs). (name, length xs)) (extra df)"

definition columns :: "frame \<Rightarrow> string list" where
  "columns df = map fst (column_sizes df)"

text \<open>Every column of a DataFrame has the length of its index.\<close>

definition wf_frame :: "frame \<Rightarrow> bool" where
  "wf_frame df = list_all (\<lambda>(name, n). n = nrows df) (column_sizes df)"

text \<open>\<open>DataFrame.empty\<close>: no rows or no columns.\<close>

definition empty :: "frame \<Rightarrow> bool" where
  "empty df = (nrows df = 0 \<or> columns df = [])"

text \<open>Float division of two stored numbers, as numpy performs it.\<close>

definition fdiv :: "rat \<Rightarrow> rat \<Rightarrow> xnum option" where
  "fdiv a b =
     (if b \<noteq> 0 then Some (Fin (a / b))
      else if 0 < a then Some PInf
      else if a < 0 then Some NInf
      else None)"

definition div_cells :: "rat option \<Rightarrow> rat option \<Rightarrow> xnum option" where
  "div_cells x y =
     (case x of None \<Rightarrow> None
      | Some a \<Rightarrow> (case y of None \<Rightarrow> None | Some b \<Rightarrow> fdiv a b))"

definition x_lt :: "xnum \<Rightarrow> rat \<Rightarrow> bool" where
  "x_lt x k = (case x of Fin a \<Rightarrow> a < k | PInf \<Rightarrow> False | NInf \<Rightarrow> True)"

definition x_gt :: "xnum \<Rightarrow> rat \<Rightarrow> bool" where
  "x_gt x k = (case x of Fin a \<Rightarrow> k < a | PInf \<Rightarrow> True | NInf \<Rightarrow> False)"

section \<open>Data cleaner (etl/transformers/data_cleaner.py)\<close>

definition brand_mapping :: "(string \<times> string) list" where
  "brand_mapping =
     [(''bmw'', ''BMW''), (''mercedes'', ''Mercedes-Benz''),
      (''mercedes benz'', ''Mercedes-Benz''), (''volkswagen'', ''Volkswagen''),
      (''vw'', ''Volkswagen'')]"

text \<open>\<open>Series.replace(mapping)\<close>: a cell equal to a key becomes the key's value.\<close>

definition replace_map :: "(string \<times> string) list \<Rightarrow> string \<Rightarrow> string" where
  "replace_map m s = (case map_of m s of Some v \<Rightarrow> v | None \<Rightarrow> s)"

text \<open>\<open>Series.replace('', None)\<close>, read as the replacement the call names.\<close>

definition empty_to_null :: "string option \<Rightarrow> string option" where
  "empty_to_null x = (if x = Some [] then None else x)"

definition remove_empty_columns :: "frame \<Rightarrow> frame" where
  "remove_empty_columns df =
     df\<lparr>doors := None, style := None, location := None, province := None,
        features := None\<rparr>"

definition clean_brand_value :: "string \<Rightarrow> string" where
  "clean_brand_value b = py_title (replace_map brand_mapping (py_strip (py_lower b)))"

definition clean_brands :: "frame \<Rightarrow> frame" where
  "clean_brands df =
     (case brand df of
        None \<Rightarrow> df
      | Some bs \<Rightarrow> df\<lparr>brand := Some (map (map_option clean_brand_value) bs)\<rparr>)"

definition strip_benz :: "string option \<Rightarrow> string option \<Rightarrow> string option" where
  "strip_benz b m =
     (if b = Some ''Mercedes-Benz'' then map_option (py_replace ''BENZ '' []) m else m)"

text \<open>The model step reads \<open>df['brand']\<close> without a guard: KeyError when the batch has
  a model column and no brand column.\<close>

definition clean_models :: "frame \<Rightarrow> error + frame" where
  "clean_models df =
     (case model df of
        None \<Rightarrow> Inr df
      | Some ms \<Rightarrow>
          (let ms1 = map empty_to_null ms;
               ms2 = map (map_option (\<lambda>s. py_upper (py_strip s))) ms1
           in case brand df of
                None \<Rightarrow> Inl KeyError
              | Some bs \<Rightarrow> Inr (df\<lparr>model := Some (map2 strip_benz bs ms2)\<rparr>)))"

definition i_acute :: char where
  "i_acute = char_of (237 :: nat)"

definition e_acute :: char where
  "e_acute = char_of (233 :: nat)"

definition fuel_mapping :: "(string \<times> string) list" where
  "fuel_mapping =
     [(''gasolina'', ''Gasoline''), (''diesel'', ''Diesel''),
      (''h'' @ [i_acute] @ ''brido'', ''Hybrid''), (''hibrido'', ''Hybrid'')]"

definition clean_fuel_value :: "string \<Rightarrow> string" where
  "clean_fuel_value s = replace_map fuel_mapping (py_lower s)"

definition clean_fuel_types :: "frame \<Rightarrow> frame" where
  "clean_fuel_types df =
     (case fuel_type df of
        None \<Rightarrow> df
      | Some fs \<Rightarrow>
          df\<lparr>fuel_type := Some (map (\<lambda>x. map_option clean_fuel_value (empty_to_null x)) fs)\<rparr>)"

text \<open>\<open>df.loc[mask, col] = None\<close>: a null cell compares false and stays null.\<close>

definition null_where :: "(rat \<Rightarrow> bool) \<Rightarrow> rat option \<Rightarrow> rat option" where
  "null_where p x = (case x of None \<Rightarrow> None | Some v \<Rightarrow> if p v then None else Some v)"

definition clean_years :: "frame \<Rightarrow> frame" where
  "clean_years df =
     (case year df of
        None \<Rightarrow> df
      | Some ys \<Rightarrow> df\<lparr>year := Some (map (null_where (\<lambda>v. v < 1950 \<or> v > 2026)) ys)\<rparr>)"

definition clean_mileage :: "frame \<Rightarrow> frame" where
  "clean_mileage df =
     (case mileage df of
        None \<Rightarrow> df
      | Some ms \<Rightarrow>
          (let ms1 = map (null_where (\<lambda>v. v > 500000)) ms;
               ms2 = map (null_where (\<lambda>v. v = 0)) ms1
           in df\<lparr>mileage := Some ms2\<rparr>))"

definition clean_engine_cc :: "frame \<Rightarrow> frame" where
  "clean_engine_cc df =
     (case engine_cc df of
        None \<Rightarrow> df
      | Some es \<Rightarrow> df\<lparr>engine_cc := Some (map (null_where (\<lambda>v. v < 500 \<or> v > 6000)) es)\<rparr>)"

definition color_mapping :: "(string \<times> string) list" where
  "color_mapping =
     [(''negro'', ''Black''), (''blanco'', ''White''), (''gris'', ''Gray''),
      (''azul'', ''Blue''), (''rojo'', ''Red''), (''plateado'', ''Silver''),
      (''caf'' @ [e_acute], ''Brown''), (''vino'', ''Burgundy'')]"

definition clean_color_value :: "string \<Rightarrow> string" where
  "clean_color_value s =
     py_title (foldl (\<lambda>t (spanish, english). py_replace spanish (py_lower english) t)
                 (py_strip (py_lower s)) color_mapping)"

definition clean_colors :: "frame \<Rightarrow> frame" where
  "clean_colors df =
     (let df1 = (case color_exterior df of
                   None \<Rightarrow> df
                 | Some cs \<Rightarrow>
                     df\<lparr>color_exterior := Some (map (map_option clean_color_value) cs)\<rparr>)
      in case color_interior df1 of
           None \<Rightarrow> df1
         | Some cs \<Rightarrow> df1\<lparr>color_interior := Some (map (map_option clean_color_value) cs)\<rparr>)"

definition rate_flag :: "xnum option \<Rightarrow> bool" where
  "rate_flag r = (case r of None \<Rightarrow> False | Some x \<Rightarrow> x_lt x 400 \<or> x_gt x 600)"

definition validate_prices :: "frame \<Rightarrow> frame" where
  "validate_prices df =
     (case price_colones df of
        None \<Rightarrow> df
      | Some cs \<Rightarrow>
          (case price_usd df of
             None \<Rightarrow> df
           | Some us \<Rightarrow>
               (let rates = map2 div_cells cs us
                in df\<lparr>exchange_rate := Some rates, price_flag := Some (map rate_flag rates)\<rparr>)))"

definition clean_phone_numbers :: "frame \<Rightarrow> frame" where
  "clean_phone_numbers df =
     (case seller_phone df of
        None \<Rightarrow> df
      | Some ps \<Rightarrow>
          df\<lparr>seller_phone :=
               Some (map (map_option (filter (\<lambda>c. is_digit c \<or> c = CHR ''-''))) ps)\<rparr>)"

definition luxury_brands :: "string list" where
  "luxury_brands =
     [''BMW'', ''Mercedes-Benz'', ''Audi'', ''Porsche'', ''Lexus'', ''Jaguar'', ''Land Rover'']"

definition isin_luxury :: "string option \<Rightarrow> bool" where
  "isin_luxury b = (case b of None \<Rightarrow> False | Some s \<Rightarrow> List.member luxury_brands s)"

definition per_year :: "rat option \<Rightarrow> rat option \<Rightarrow> xnum option" where
  "per_year p a = div_cells p (map_option (\<lambda>v. v + 1) a)"

text \<open>\<open>current_year\<close> is \<open>pd.Timestamp.now().year\<close>, a parameter of the model.\<close>

definition add_derived_features :: "rat \<Rightarrow> frame \<Rightarrow> frame" where
  "add_derived_features current_year df =
     (let df1 = (case year df of
                   None \<Rightarrow> df
                 | Some ys \<Rightarrow>
                     df\<lparr>vehicle_age := Some (map (map_option (\<lambda>y. current_year - y)) ys)\<rparr>);
          df2 = (case price_usd df1 of
                   None \<Rightarrow> df1
                 | Some ps \<Rightarrow>
                     (case vehicle_age df1 of
                        None \<Rightarrow> df1
                      | Some ages \<Rightarrow> df1\<lparr>price_per_year := Some (map2 per_year ps ages)\<rparr>))
      in case brand df2 of
           None \<Rightarrow> df2
         | Some bs \<Rightarrow> df2\<lparr>is_luxury := Some (map isin_luxury bs)\<rparr>)"

definition clean_data :: "rat \<Rightarrow> frame \<Rightarrow> error + frame" where
  "clean_data current_year df =
     (case clean_models (clean_brands (remove_empty_columns df)) of
        Inl e \<Rightarrow> Inl e
      | Inr df1 \<Rightarrow>
          Inr (add_derived_features current_year
                 (clean_phone_numbers
                   (validate_prices
                     (clean_colors
                       (clean_engine_cc
                         (clean_mileage
                           (clean_years
                             (clean_fuel_types df1)))))))))"

section \<open>Data validator (etl/transformers/data_validator.py)\<close>

text \<open>The report's messages are kept as data: \<open>MissingRequiredField f\<close> is
  "Missing required field: f", \<open>NullValues f n\<close> is "f has n null values",
  \<open>OutsideRange f n\<close> is "f has n values outside valid range", \<open>DuplicateIds n\<close> is
  "Found n duplicate vehicle IDs" and \<open>InconsistentPrices n\<close> is "n records have
  inconsistent USD/Colones prices".\<close>

datatype verror = MissingRequiredField string

datatype warning =
    NullValues string nat
  | OutsideRange string nat
  | DuplicateIds nat
  | InconsistentPrices nat

record report =
  total_records :: nat
  validation_errors :: "verror list"
  warnings :: "warning list"
  passed_validation :: bool

definition required_fields :: "string list" where
  "required_fields = [''url'', ''vehicle_id'', ''brand'', ''price_usd'', ''price_colones'']"

definition validation_rules :: "(string \<times> rat \<times> rat) list" where
  "validation_rules =
     [(''year'', 1950, 2026), (''price_usd'', 1000, 500000),
      (''price_colones'', 500000, 250000000), (''mileage'', 0, 500000),
      (''engine_cc'', 500, 6000), (''exchange_rate'', 400, 600)]"

definition isnull :: "'a option list \<Rightarrow> bool list" where
  "isnull xs = map (\<lambda>x. x = None) xs"

definition count_true :: "bool list \<Rightarrow> nat" where
  "count_true bs = length (filter (\<lambda>b. b) bs)"

text \<open>\<open>df[field].isnull()\<close> for the fields the validator requires; \<open>None\<close> when the
  column is not in the batch.\<close>

definition null_mask_of :: "frame \<Rightarrow> string \<Rightarrow> bool list option" where
  "null_mask_of df field =
     (if field = ''url'' then map_option isnull (url df)
      else if field = ''vehicle_id'' then map_option isnull (vehicle_id df)
      else if field = ''brand'' then map_option isnull (brand df)
      else if field = ''price_usd'' then map_option isnull (price_usd df)
      else if field = ''price_colones'' then map_option isnull (price_colones df)
      else None)"

text \<open>\<open>df[field]\<close> for the fields of the rule table, as floats.\<close>

definition as_xnum :: "num_col \<Rightarrow> xnum_col" where
  "as_xnum xs = map (map_option Fin) xs"

definition numeric_column :: "frame \<Rightarrow> string \<Rightarrow> xnum_col option" where
  "numeric_column df field =
     (if field = ''year'' then map_option as_xnum (year df)
      else if field = ''price_usd'' then map_option as_xnum (price_usd df)
      else if field = ''price_colones'' then map_option as_xnum (price_colones df)
      else if field = ''mileage'' then map_option as_xnum (mileage df)
      else if field = ''engine_cc'' then map_option as_xnum (engine_cc df)
      else if field = ''exchange_rate'' then exchange_rate df
      else None)"

definition dropna :: "'a option list \<Rightarrow> 'a list" where
  "dropna xs = concat (map (\<lambda>x. case x of None \<Rightarrow> [] | Some v \<Rightarrow> [v]) xs)"

text \<open>
  The validator's methods receive the batch by reference. Each is modelled as a function
  that returns the batch as the call leaves it next to its result: \<open>dropna\<close> and the
  selection by a boolean mask build new objects, and no statement assigns to \<open>df\<close> or to
  one of its columns.
\<close>

definition validate_numeric_range :: "frame \<Rightarrow> string \<Rightarrow> rat \<Rightarrow> rat \<Rightarrow> frame \<times> nat" where
  "validate_numeric_range df field min_val max_val =
     (case numeric_column df field of
        None \<Rightarrow> (df, 0)
      | Some xs \<Rightarrow>
          (let valid_data = dropna xs
           in (df, count_true (map (\<lambda>v. x_lt v min_val \<or> x_gt v max_val) valid_data))))"

definition both_positive :: "rat option \<times> rat option \<Rightarrow> bool" where
  "both_positive r =
     (case r of
        (Some u, Some c) \<Rightarrow> 0 < u \<and> 0 < c
      | _ \<Rightarrow> False)"

definition validate_price_consistency :: "frame \<Rightarrow> frame \<times> nat" where
  "validate_price_consistency df =
     (case price_usd df of
        None \<Rightarrow> (df, 0)
      | Some us \<Rightarrow>
          (case price_colones df of
             None \<Rightarrow> (df, 0)
           | Some cs \<Rightarrow>
               (let valid_prices = filter both_positive (zip us cs)
                in if length valid_prices = 0 then (df, 0)
                   else
                     (let exchange_rates = map (\<lambda>(u, c). div_cells c u) valid_prices
                      in (df, count_true (map rate_flag exchange_rates))))))"

definition check_required :: "frame \<times> report \<Rightarrow> string \<Rightarrow> frame \<times> report" where
  "check_required st field =
     (case st of (df, rep) \<Rightarrow>
        (case null_mask_of df field of
           None \<Rightarrow>
             (df, rep\<lparr>validation_errors := validation_errors rep @ [MissingRequiredField field],
                     passed_validation := False\<rparr>)
         | Some nulls \<Rightarrow>
             (if list_ex (\<lambda>b. b) nulls
              then (df, rep\<lparr>warnings := warnings rep @ [NullValues field (count_true nulls)]\<rparr>)
              else (df, rep))))"

definition check_range :: "frame \<times> report \<Rightarrow> string \<times> rat \<times> rat \<Rightarrow> frame \<times> report" where
  "check_range st rule =
     (case st of (df, rep) \<Rightarrow>
        (case rule of (field, min_val, max_val) \<Rightarrow>
           (case numeric_column df field of
              None \<Rightarrow> (df, rep)
            | Some _ \<Rightarrow>
                (case validate_numeric_range df field min_val max_val of
                   (df1, invalid_count) \<Rightarrow>
                     (if 0 < invalid_count
                      then (df1, rep\<lparr>warnings := warnings rep @ [OutsideRange field invalid_count]\<rparr>)
                      else (df1, rep))))))"

text \<open>\<open>Series.duplicated().sum()\<close>: the cells equal to an earlier cell, nulls included.\<close>

definition duplicated_count :: "'a list \<Rightarrow> nat" where
  "duplicated_count xs = length xs - length (remdups xs)"

definition check_duplicates :: "frame \<times> report \<Rightarrow> frame \<times> report" where
  "check_duplicates st =
     (case st of (df, rep) \<Rightarrow>
        (case vehicle_id df of
           None \<Rightarrow> (df, rep)
         | Some ids \<Rightarrow>
             (let duplicate_count = duplicated_count ids
              in if 0 < duplicate_count
                 then (df, rep\<lparr>warnings := warnings rep @ [DuplicateIds duplicate_count]\<rparr>)
                 else (df, rep))))"

definition check_prices :: "frame \<times> report \<Rightarrow> frame \<times> report" where
  "check_prices st =
     (case st of (df, rep) \<Rightarrow>
        (if price_usd df \<noteq> None \<and> price_colones df \<noteq> None
         then (case validate_price_consistency df of
                 (df1, inconsistent_prices) \<Rightarrow>
                   (if 0 < inconsistent_prices
                    then (df1, rep\<lparr>warnings := warnings rep @ [InconsistentPrices inconsistent_prices]\<rparr>)
                    else (df1, rep)))
         else (df, rep)))"

definition validate_data :: "frame \<Rightarrow> frame \<times> report" where
  "validate_data df =
     (let rep0 = \<lparr>total_records = nrows df, validation_errors = [], warnings = [],
                  passed_validation = True\<rparr>
      in check_prices
           (check_duplicates
             (foldl check_range
               (foldl check_required (df, rep0) required_fields)
               validation_rules)))"

section \<open>Clean store (etl/loaders/clean_data_loader.py)\<close>

text \<open>
  The clean store is the table \<open>vehicles_clean\<close>. \<open>load_clean_data\<close> in mode
  \<open>replace\<close> rebuilds the table from the batch, so the table has the batch's columns.
  The quality queries name the columns model, year, mileage, fuel_type, engine_cc,
  price_flag and brand; a query on a missing column raises sqlite3.OperationalError.
  A percentage over an empty table is NULL. Groups of equal size are listed in the
  order of their first row, where SQL leaves the order open.
\<close>

record stats =
  stat_total_records :: nat
  missing_percentages :: "(string \<times> rat option) list"
  price_issues :: nat
  brand_distribution :: "(string option \<times> nat) list"

definition load_clean_data :: "frame \<Rightarrow> frame option \<Rightarrow> frame option" where
  "load_clean_data df store = Some df"

definition percent_missing :: "nat \<Rightarrow> 'a option list \<Rightarrow> rat option" where
  "percent_missing n xs =
     (if n = 0 then None
      else Some (of_nat (count_true (isnull xs)) * 100 / of_nat n))"

definition group_count :: "'a list \<Rightarrow> ('a \<times> nat) list" where
  "group_count xs = map (\<lambda>x. (x, count_list xs x)) (remdups xs)"

definition top_brands :: "string option list \<Rightarrow> (string option \<times> nat) list" where
  "top_brands bs = take 10 (sort_key (\<lambda>(b, n). - int n) (group_count bs))"

definition get_data_quality_stats :: "frame option \<Rightarrow> error + stats" where
  "get_data_quality_stats store =
     (case store of
        None \<Rightarrow> Inl OperationalError
      | Some t \<Rightarrow>
          (case (model t, year t, mileage t, fuel_type t, engine_cc t, price_flag t, brand t) of
             (Some ms, Some ys, Some ks, Some fs, Some es, Some flags, Some bs) \<Rightarrow>
               Inr \<lparr>stat_total_records = nrows t,
                    missing_percentages =
                      [(''model_missing'', percent_missing (nrows t) ms),
                       (''year_missing'', percent_missing (nrows t) ys),
                       (''mileage_missing'', percent_missing (nrows t) ks),
                       (''fuel_missing'', percent_missing (nrows t) fs),
                       (''engine_missing'', percent_missing (nrows t) es)],
                    price_issues = count_true flags,
                    brand_distribution = top_brands bs\<rparr>
           | _ \<Rightarrow> Inl OperationalError))"

section \<open>Pipeline (etl/pipelines/vehicle_etl_pipeline.py)\<close>

text \<open>
  The logger is a list of lines, oldest first; a line is a level and a message, the
  messages kept as data. The run takes the batch the extractor returned and the clean
  store, and returns what the call returns or raises, the log and the store.
  \<open>Inr None\<close> is the bare \<open>return\<close> of the empty batch.
\<close>

datatype level = INFO | WARNING | ERROR

datatype message =
    Starting
  | Extracting
  | Extracted nat
  | NoData
  | ValidatingRaw
  | ReportTitle string
  | TotalRecords nat
  | ValidationPassed bool
  | ErrorsHeader
  | ErrorLine verror
  | WarningsHeader
  | WarningLine warning
  | Cleaning
  | Cleaned nat
  | ValidatingClean
  | Loading
  | GeneratingQuality
  | QualityTitle
  | PriceIssues nat
  | MissingHeader
  | MissingLine string rat
  | BrandsHeader
  | BrandLine "string option" nat
  | Completed
  | Failed error

type_synonym log = "(level \<times> message) list"

definition log_validation_report :: "report \<Rightarrow> string \<Rightarrow> log" where
  "log_validation_report rep title =
     [(INFO, ReportTitle title), (INFO, TotalRecords (total_records rep)),
      (INFO, ValidationPassed (passed_validation rep))] @
     (if validation_errors rep \<noteq> []
      then (ERROR, ErrorsHeader) # map (\<lambda>e. (ERROR, ErrorLine e)) (validation_errors rep)
      else []) @
     (if warnings rep \<noteq> []
      then (WARNING, WarningsHeader) # map (\<lambda>w. (WARNING, WarningLine w)) (warnings rep)
      else [])"

text \<open>Formatting a NULL percentage with \<open>:.2f\<close> raises TypeError; the lines logged
  before it stay in the log.\<close>

fun missing_lines :: "(string \<times> rat option) list \<Rightarrow> log \<times> error option" where
  "missing_lines [] = ([], None)"
| "missing_lines ((field, None) # rest) = ([], Some TypeError)"
| "missing_lines ((field, Some p) # rest) =
     (case missing_lines rest of (ls, e) \<Rightarrow> ((INFO, MissingLine field p) # ls, e))"

definition log_quality_stats :: "stats \<Rightarrow> log \<times> error option" where
  "log_quality_stats st =
     (case missing_lines (missing_percentages st) of
        (ls, Some e) \<Rightarrow>
          ([(INFO, QualityTitle), (INFO, TotalRecords (stat_total_records st)),
            (INFO, PriceIssues (price_issues st)), (INFO, MissingHeader)] @ ls, Some e)
      | (ls, None) \<Rightarrow>
          ([(INFO, QualityTitle), (INFO, TotalRecords (stat_total_records st)),
            (INFO, PriceIssues (price_issues st)), (INFO, MissingHeader)] @ ls @
           (INFO, BrandsHeader) #
           map (\<lambda>(b, n). (INFO, BrandLine b n)) (take 5 (brand_distribution st)), None))"

text \<open>The handler of \<open>run_full_pipeline\<close>: log the failure and raise it again.\<close>

definition failed :: "error \<Rightarrow> log \<Rightarrow> frame option \<Rightarrow> (error + stats option) \<times> log \<times> frame option" where
  "failed e lg store = (Inl e, lg @ [(ERROR, Failed e)], store)"

definition run_full_pipeline ::
  "rat \<Rightarrow> frame \<Rightarrow> frame option \<Rightarrow> (error + stats option) \<times> log \<times> frame option" where
  "run_full_pipeline current_year raw_data store =
     (let lg1 = [(INFO, Starting), (INFO, Extracting), (INFO, Extracted (nrows raw_data))]
      in if empty raw_data then (Inr None, lg1 @ [(WARNING, NoData)], store)
         else
           (case validate_data raw_data of (raw1, validation_report) \<Rightarrow>
              (let lg2 = lg1 @ [(INFO, ValidatingRaw)] @
                         log_validation_report validation_report ''RAW DATA'' @
                         [(INFO, Cleaning)]
               in case clean_data current_year raw1 of
                    Inl e \<Rightarrow> failed e lg2 store
                  | Inr cleaned \<Rightarrow>
                      (case validate_data cleaned of (cleaned1, clean_validation) \<Rightarrow>
                         (let lg3 = lg2 @ [(INFO, Cleaned (nrows cleaned)), (INFO, ValidatingClean)] @
                                    log_validation_report clean_validation ''CLEAN DATA'' @
                                    [(INFO, Loading)];
                              store1 = load_clean_data cleaned1 store;
                              lg4 = lg3 @ [(INFO, GeneratingQuality)]
                          in case get_data_quality_stats store1 of
                               Inl e \<Rightarrow> failed e lg4 store1
                             | Inr st \<Rightarrow>
                                 (case log_quality_stats st of
                                    (ls, Some e) \<Rightarrow> failed e (lg4 @ ls) store1
                                  | (ls, None) \<Rightarrow>
                                      (Inr (Some st), lg4 @ ls @ [(INFO, Completed)], store1)))))))"

section \<open>Column-wise reading of the cleaner\<close>

text \<open>What the price step and the derived-feature step write, as functions of the batch
  they read; and the steps that follow the model step, in the order of \<open>clean_data\<close>.\<close>

definition rates_of :: "frame \<Rightarrow> xnum_col option" where
  "rates_of df =
     (case price_colones df of
        None \<Rightarrow> None
      | Some cs \<Rightarrow>
          (case price_usd df of None \<Rightarrow> None | Some us \<Rightarrow> Some (map2 div_cells cs us)))"

definition ages_of :: "rat \<Rightarrow> frame \<Rightarrow> num_col option" where
  "ages_of current_year df =
     (case year df of
        None \<Rightarrow> vehicle_age df
      | Some ys \<Rightarrow> Some (map (map_option (\<lambda>y. current_year - y)) ys))"

definition ppy_of :: "rat \<Rightarrow> frame \<Rightarrow> xnum_col option" where
  "ppy_of current_year df =
     (case price_usd df of
        None \<Rightarrow> price_per_year df
      | Some ps \<Rightarrow>
          (case ages_of current_year df of
             None \<Rightarrow> price_per_year df
           | Some ages \<Rightarrow> Some (map2 per_year ps ages)))"

definition post_steps :: "rat \<Rightarrow> frame \<Rightarrow> frame" where
  "post_steps current_year m =
     add_derived_features current_year
       (clean_phone_numbers
         (validate_prices
           (clean_colors
             (clean_engine_cc
               (clean_mileage
                 (clean_years
                   (clean_fuel_types m)))))))"

section \<open>Example batches\<close>

definition no_columns :: "nat \<Rightarrow> frame" where
  "no_columns n =
     \<lparr>nrows = n, url = None, vehicle_id = None, brand = None, model = None, year = None,
      price_colones = None, price_usd = None, mileage = None, fuel_type = None,
      engine_cc = None, doors = None, style = None, color_exterior = None,
      color_interior = None, location = None, province = None, seller_phone = None,
      features = None, exchange_rate = None, price_flag = None, vehicle_age = None,
      price_per_year = None, is_luxury = None, extra = []\<rparr>"

text \<open>Four rows of prices: a plausible rate, an implausible one, a null price and a USD
  price of zero.\<close>

definition price_batch :: frame where
  "price_batch =
     (no_columns 4)\<lparr>price_colones := Some [Some 10000000, Some 10000000, None, Some 5],
                     price_usd := Some [Some 20000, Some 5000, Some 100, Some 0]\<rparr>"

text \<open>One complete listing in a batch that has no \<open>url\<close> column.\<close>

definition no_url_batch :: frame where
  "no_url_batch =
     (no_columns 1)\<lparr>vehicle_id := Some [Some ''123''], brand := Some [Some ''Toyota''],
        model := Some [Some ''Corolla''], year := Some [Some 2020],
        price_colones := Some [Some 10000000], price_usd := Some [Some 20000],
        mileage := Some [Some 50000], fuel_type := Some [Some ''gasolina''],
        engine_cc := Some [Some 1800]\<rparr>"

definition no_url_stats :: stats where
  "no_url_stats =
     \<lparr>stat_total_records = 1,
      missing_percentages =
        [(''model_missing'', Some 0), (''year_missing'', Some 0),
         (''mileage_missing'', Some 0), (''fuel_missing'', Some 0),
         (''engine_missing'', Some 0)],
      price_issues = 0, brand_distribution = [(Some ''Toyota'', 1)]\<rparr>"

definition range_batch :: frame where
  "range_batch =
     (no_columns 2)\<lparr>year := Some [Some 1920, Some 2023],
                     mileage := Some [Some 600000, Some 0],
                     engine_cc := Some [Some 100, Some 1600]\<rparr>"

definition range_batch_clean :: frame where
  "range_batch_clean =
     (no_columns 2)\<lparr>year := Some [None, Some 2023], mileage := Some [None, None],
                     engine_cc := Some [None, Some 1600],
                     vehicle_age := Some [None, Some 2]\<rparr>"

definition negative_mileage_batch :: frame where
  "negative_mileage_batch = (no_columns 1)\<lparr>mileage := Some [Some (- 5)]\<rparr>"




definition bmw_batch :: frame where
  "bmw_batch = (no_columns 2)\<lparr>brand := Some [Some ''bmw'', Some ''BMW'']\<rparr>"

definition bmw_batch_clean :: frame where
  "bmw_batch_clean =
     (no_columns 2)\<lparr>brand := Some [Some ''Bmw'', Some ''Bmw''],
                     is_luxury := Some [False, False]\<rparr>"

section \<open>Verified properties\<close>

subsection \<open>Field extractors\<close>

text \<open>
  C5. The mileage extractor tries the kilometre form first and the \<open>mil\<close> form second.
  The claim says the kilometre form returns the matched number unchanged; the source
  multiplies by 1000 in both branches (parsers.py, lines 34 and 37), so the text
  \<open>50000 km\<close> yields 50000000 where the claim says 50000.
\<close>

theorem extract_mileage_km_form_scaled:
  "extract_mileage ''50000 km'' = Inr (Some 50000000)"
  by code_simp

text \<open>
  C8. The claim says every extractor is total and never raises. The price extractors
  accept a token made of separators only: on the text \<open>$.\<close> the pattern matches with
  group \<open>.\<close>, the separators are removed and \<open>int\<close> is applied to the empty
  string, which raises ValueError.
\<close>

theorem extract_price_usd_raises:
  "extract_price_usd ''$.'' = Inl ValueError"
  by code_simp

subsection \<open>Characters and strings\<close>

lemma code_lower_char: "code (lower_char c) = (if is_upper c then code c + 32 else code c)"
  by (simp add: lower_char_def code_def is_upper_def)














subsection \<open>Brand values\<close>

lemma clean_brand_value_key:
  "py_strip (py_lower b) = k \<Longrightarrow> clean_brand_value b = py_title (replace_map brand_mapping k)"
  by (simp add: clean_brand_value_def)

lemma brand_key_values:
  "py_title (replace_map brand_mapping ''bmw'') = ''Bmw''"
  "py_title (replace_map brand_mapping ''mercedes'') = ''Mercedes-Benz''"
  "py_title (replace_map brand_mapping ''mercedes benz'') = ''Mercedes-Benz''"
  "py_title (replace_map brand_mapping ''volkswagen'') = ''Volkswagen''"
  "py_title (replace_map brand_mapping ''vw'') = ''Volkswagen''"
  by code_simp+


text \<open>Title-casing never leaves a capital right after a letter, so no cleaned brand is
  \<open>BMW\<close>.\<close>

lemma lower_char_not_upper: "\<not> is_upper (lower_char c)"
  by (simp add: is_upper_def code_lower_char)

lemma upper_B_M: "is_upper (CHR ''M'')" "is_upper (CHR ''B'')"
  by (simp_all add: is_upper_def code_def)

lemma title_from_head_letter:
  "title_from p (a # cs) = CHR ''B'' # r \<Longrightarrow> is_upper a \<or> is_lower a"
  using upper_B_M by (auto split: if_splits)

lemma title_from_after_letter:
  "title_from True (b # cs) \<noteq> CHR ''M'' # r"
  using upper_B_M(1) lower_char_not_upper [of b] by (auto split: if_splits)

lemma title_from_not_BMW: "title_from p s \<noteq> ''BMW''"
proof
  assume a: "title_from p s = ''BMW''"
  then obtain x xs where s: "s = x # xs" by (cases s) auto
  have l: "is_upper x \<or> is_lower x" using a unfolding s by (rule title_from_head_letter)
  then have "title_from True xs = ''MW''" using a unfolding s by (auto split: if_splits)
  moreover obtain y ys where "xs = y # ys" using calculation by (cases xs) auto
  ultimately show False using title_from_after_letter by blast
qed

lemma clean_brand_value_not_BMW: "clean_brand_value b \<noteq> ''BMW''"
  by (simp add: clean_brand_value_def py_title_def title_from_not_BMW)


subsection \<open>The cleaner's steps as column updates\<close>

lemma remove_empty_columns_upd:
  "remove_empty_columns df =
     df\<lparr>doors := None, style := None, location := None, province := None, features := None\<rparr>"
  by (simp add: remove_empty_columns_def)

lemma clean_brands_upd:
  "clean_brands df = df\<lparr>brand := map_option (map (map_option clean_brand_value)) (brand df)\<rparr>"
  by (cases df) (simp add: clean_brands_def split: option.splits)

lemma clean_fuel_types_upd:
  "clean_fuel_types df =
     df\<lparr>fuel_type :=
          map_option (map (\<lambda>x. map_option clean_fuel_value (empty_to_null x))) (fuel_type df)\<rparr>"
  by (cases df) (simp add: clean_fuel_types_def split: option.splits)

lemma clean_years_upd:
  "clean_years df =
     df\<lparr>year := map_option (map (null_where (\<lambda>v. v < 1950 \<or> v > 2026))) (year df)\<rparr>"
  by (cases df) (simp add: clean_years_def split: option.splits)

lemma clean_mileage_upd:
  "clean_mileage df =
     df\<lparr>mileage :=
          map_option (\<lambda>ms. map (null_where (\<lambda>v. v = 0)) (map (null_where (\<lambda>v. v > 500000)) ms))
            (mileage df)\<rparr>"
  by (cases df) (simp add: clean_mileage_def Let_def split: option.splits)

lemma clean_engine_cc_upd:
  "clean_engine_cc df =
     df\<lparr>engine_cc := map_option (map (null_where (\<lambda>v. v < 500 \<or> v > 6000))) (engine_cc df)\<rparr>"
  by (cases df) (simp add: clean_engine_cc_def split: option.splits)

lemma clean_colors_upd:
  "clean_colors df =
     df\<lparr>color_exterior := map_option (map (map_option clean_color_value)) (color_exterior df),
        color_interior := map_option (map (map_option clean_color_value)) (color_interior df)\<rparr>"
  by (cases df) (simp add: clean_colors_def Let_def split: option.splits)

lemma clean_phone_numbers_upd:
  "clean_phone_numbers df =
     df\<lparr>seller_phone :=
          map_option (map (map_option (filter (\<lambda>c. is_digit c \<or> c = CHR ''-''))))
            (seller_phone df)\<rparr>"
  by (cases df) (simp add: clean_phone_numbers_def split: option.splits)

lemma validate_prices_upd:
  "validate_prices df =
     df\<lparr>exchange_rate :=
          (case rates_of df of None \<Rightarrow> exchange_rate df | Some rs \<Rightarrow> Some rs),
        price_flag :=
          (case rates_of df of None \<Rightarrow> price_flag df | Some rs \<Rightarrow> Some (map rate_flag rs))\<rparr>"
  by (cases df) (simp add: validate_prices_def rates_of_def Let_def split: option.splits)

lemma add_derived_features_upd:
  "add_derived_features cy df =
     df\<lparr>vehicle_age := ages_of cy df, price_per_year := ppy_of cy df,
        is_luxury :=
          (case brand df of None \<Rightarrow> is_luxury df | Some bs \<Rightarrow> Some (map isin_luxury bs))\<rparr>"
  by (cases df)
     (simp add: add_derived_features_def ages_of_def ppy_of_def Let_def split: option.splits)

lemmas step_upds = remove_empty_columns_upd clean_brands_upd clean_fuel_types_upd clean_years_upd
  clean_mileage_upd clean_engine_cc_upd clean_colors_upd clean_phone_numbers_upd
  validate_prices_upd add_derived_features_upd

lemma clean_models_Inr:
  "clean_models df = Inr d \<Longrightarrow> d = df\<lparr>model := model d\<rparr>"
  by (cases df) (auto simp add: clean_models_def Let_def split: option.splits)


lemma clean_models_total:
  "model df = None \<or> brand df \<noteq> None \<Longrightarrow> \<exists>d. clean_models df = Inr d"
  by (auto simp add: clean_models_def Let_def split: option.splits)

lemma clean_models_model_None:
  "clean_models df = Inr d \<Longrightarrow> (model d = None) = (model df = None)"
  by (auto simp add: clean_models_def Let_def split: option.splits)

lemma clean_data_Inr:
  assumes "clean_data cy df = Inr d"
  shows "\<exists>M. d = post_steps cy ((clean_brands (remove_empty_columns df))\<lparr>model := M\<rparr>)"
proof -
  from assms obtain m1 where cm: "clean_models (clean_brands (remove_empty_columns df)) = Inr m1"
    and d_eq: "d = post_steps cy m1"
    by (auto simp add: clean_data_def post_steps_def split: sum.splits)
  have "m1 = (clean_brands (remove_empty_columns df))\<lparr>model := model m1\<rparr>"
    using cm by (rule clean_models_Inr)
  then show ?thesis using d_eq by metis
qed

lemma clean_data_total:
  assumes "model df = None \<or> brand df \<noteq> None"
  shows "\<exists>d. clean_data cy df = Inr d"
proof -
  have "model (clean_brands (remove_empty_columns df)) = None \<or>
        brand (clean_brands (remove_empty_columns df)) \<noteq> None"
    using assms by (auto simp add: step_upds)
  then obtain m where "clean_models (clean_brands (remove_empty_columns df)) = Inr m"
    using clean_models_total by blast
  then show ?thesis by (simp add: clean_data_def)
qed

lemma clean_data_nrows: "clean_data cy df = Inr d \<Longrightarrow> nrows d = nrows df"
  by (drule clean_data_Inr) (auto simp add: post_steps_def step_upds)

lemma clean_data_year:
  "clean_data cy df = Inr d \<Longrightarrow>
   year d = map_option (map (null_where (\<lambda>v. v < 1950 \<or> v > 2026))) (year df)"
  by (drule clean_data_Inr) (auto simp add: post_steps_def step_upds)

lemma clean_data_mileage:
  "clean_data cy df = Inr d \<Longrightarrow>
   mileage d =
     map_option (\<lambda>ms. map (null_where (\<lambda>v. v = 0)) (map (null_where (\<lambda>v. v > 500000)) ms))
       (mileage df)"
  by (drule clean_data_Inr) (auto simp add: post_steps_def step_upds)

lemma clean_data_engine_cc:
  "clean_data cy df = Inr d \<Longrightarrow>
   engine_cc d = map_option (map (null_where (\<lambda>v. v < 500 \<or> v > 6000))) (engine_cc df)"
  by (drule clean_data_Inr) (auto simp add: post_steps_def step_upds)

lemma clean_data_brand:
  "clean_data cy df = Inr d \<Longrightarrow>
   brand d = map_option (map (map_option clean_brand_value)) (brand df)"
  by (drule clean_data_Inr) (auto simp add: post_steps_def step_upds)

lemma clean_data_is_luxury:
  "clean_data cy df = Inr d \<Longrightarrow> brand df = Some bs \<Longrightarrow>
   is_luxury d = Some (map (\<lambda>b. isin_luxury (map_option clean_brand_value b)) bs)"
  by (drule clean_data_Inr) (auto simp add: post_steps_def step_upds comp_def)

lemma clean_data_present:
  assumes "clean_data cy df = Inr d"
  shows "(model d = None) = (model df = None)"
    and "(year d = None) = (year df = None)"
    and "(mileage d = None) = (mileage df = None)"
    and "(fuel_type d = None) = (fuel_type df = None)"
    and "(engine_cc d = None) = (engine_cc df = None)"
    and "(brand d = None) = (brand df = None)"
    and "price_colones df \<noteq> None \<Longrightarrow> price_usd df \<noteq> None \<Longrightarrow> price_flag d \<noteq> None"
proof -
  from assms obtain m1 where cm: "clean_models (clean_brands (remove_empty_columns df)) = Inr m1"
    and d_eq: "d = post_steps cy m1"
    by (auto simp add: clean_data_def post_steps_def split: sum.splits)
  have "model d = model m1" unfolding d_eq post_steps_def by (simp add: step_upds)
  then show "(model d = None) = (model df = None)"
    using clean_models_model_None [OF cm] by (simp add: step_upds)
  from clean_data_Inr [OF assms] obtain M where
    d: "d = post_steps cy ((clean_brands (remove_empty_columns df))\<lparr>model := M\<rparr>)" by blast
  show "(year d = None) = (year df = None)"
    unfolding d post_steps_def by (simp add: step_upds)
  show "(mileage d = None) = (mileage df = None)"
    unfolding d post_steps_def by (simp add: step_upds)
  show "(fuel_type d = None) = (fuel_type df = None)"
    unfolding d post_steps_def by (simp add: step_upds)
  show "(engine_cc d = None) = (engine_cc df = None)"
    unfolding d post_steps_def by (simp add: step_upds)
  show "(brand d = None) = (brand df = None)"
    unfolding d post_steps_def by (simp add: step_upds)
  show "price_colones df \<noteq> None \<Longrightarrow> price_usd df \<noteq> None \<Longrightarrow> price_flag d \<noteq> None"
    unfolding d post_steps_def by (auto simp add: step_upds rates_of_def)
qed

lemma null_where_range: "null_where p x = Some v \<Longrightarrow> \<not> p v"
  by (auto simp add: null_where_def split: option.splits if_splits)

lemma null_where_Some: "null_where p x = Some v \<Longrightarrow> x = Some v"
  by (auto simp add: null_where_def split: option.splits if_splits)



lemma wf_price_colones: "wf_frame df \<Longrightarrow> price_colones df = Some cs \<Longrightarrow> length cs = nrows df"
  by (simp add: wf_frame_def column_sizes_def present_def split: option.splits)

lemma wf_price_usd: "wf_frame df \<Longrightarrow> price_usd df = Some us \<Longrightarrow> length us = nrows df"
  by (simp add: wf_frame_def column_sizes_def present_def split: option.splits)

lemma validate_prices_cols:
  "price_colones df = Some cs \<Longrightarrow> price_usd df = Some us \<Longrightarrow>
   exchange_rate (validate_prices df) = Some (map2 div_cells cs us) \<and>
   price_flag (validate_prices df) = Some (map rate_flag (map2 div_cells cs us))"
  by (simp add: validate_prices_def Let_def)

lemma price_batch_wf: "wf_frame price_batch"
  by (simp add: price_batch_def no_columns_def wf_frame_def column_sizes_def present_def)

subsection \<open>Price step\<close>



text \<open>
  C10. In a batch with both price columns the price step writes an exchange rate and a
  price flag for every row. The flag column is boolean: a row with a null price has a
  null rate and the flag False. A USD price of zero does not raise: the rate is an
  infinity (flag True), or NaN when the colones price is zero too (flag False).
\<close>

theorem validate_prices_every_row:
  assumes "wf_frame df" and "price_colones df = Some cs" and "price_usd df = Some us"
  shows "\<exists>rs fs. exchange_rate (validate_prices df) = Some rs \<and>
           price_flag (validate_prices df) = Some fs \<and>
           length rs = nrows df \<and> length fs = nrows df \<and>
           (\<forall>i<nrows df. rs ! i = div_cells (cs ! i) (us ! i) \<and> fs ! i = rate_flag (rs ! i)) \<and>
           (\<forall>i<nrows df. cs ! i = None \<or> us ! i = None \<longrightarrow> rs ! i = None \<and> \<not> fs ! i) \<and>
           (\<forall>i<nrows df. \<forall>a. cs ! i = Some a \<and> us ! i = Some 0 \<longrightarrow>
              rs ! i = (if 0 < a then Some PInf else if a < 0 then Some NInf else None) \<and>
              (fs ! i \<longleftrightarrow> a \<noteq> 0))"
proof -
  have lc: "length cs = nrows df" using assms(1,2) by (rule wf_price_colones)
  have lu: "length us = nrows df" using assms(1,3) by (rule wf_price_usd)
  have r: "\<forall>i<nrows df. map2 div_cells cs us ! i = div_cells (cs ! i) (us ! i)"
    using lc lu by simp
  show ?thesis
    using validate_prices_cols [OF assms(2,3)] lc lu r
    by (auto simp add: rate_flag_def x_lt_def x_gt_def div_cells_def fdiv_def
        split: option.splits)
qed

theorem validate_prices_every_row_witness:
  "wf_frame price_batch \<and>
   exchange_rate (validate_prices price_batch) =
     Some [Some (Fin 500), Some (Fin 2000), None, Some PInf] \<and>
   price_flag (validate_prices price_batch) = Some [False, True, False, True]"
proof -
  have c: "price_colones price_batch = Some [Some 10000000, Some 10000000, None, Some 5]"
    by (simp add: price_batch_def no_columns_def)
  have u: "price_usd price_batch = Some [Some 20000, Some 5000, Some 100, Some 0]"
    by (simp add: price_batch_def no_columns_def)
  have e: "exchange_rate (validate_prices price_batch) =
             Some [Some (Fin 500), Some (Fin 2000), None, Some PInf] \<and>
           price_flag (validate_prices price_batch) = Some [False, True, False, True]"
    by code_simp
  show ?thesis
    using validate_prices_every_row [OF price_batch_wf c u] price_batch_wf e by simp
qed

subsection \<open>Range nulling\<close>

text \<open>
  C3. The claim says that in every cleaned batch the year is null or in [1950, 2026],
  the mileage null or in (0, 500000] and the engine displacement null or in
  [500, 6000]. The mileage step nulls the values above 500000 and the value 0 only, so
  a negative mileage passes: the batch below is returned as it is.
\<close>

theorem clean_data_keeps_negative_mileage:
  "clean_data 2025 negative_mileage_batch = Inr negative_mileage_batch \<and>
   mileage negative_mileage_batch = Some [Some (- 5)]"
  by code_simp

text \<open>
  C3, as amended. In every cleaned batch a year that is not null lies in [1950, 2026],
  a mileage that is not null is different from 0 and at most 500000, and an engine
  displacement that is not null lies in [500, 6000].
\<close>

theorem clean_data_ranges:
  assumes "clean_data cy df = Inr d"
  shows "(\<forall>ys v. year d = Some ys \<and> Some v \<in> set ys \<longrightarrow> 1950 \<le> v \<and> v \<le> 2026) \<and>
         (\<forall>ms v. mileage d = Some ms \<and> Some v \<in> set ms \<longrightarrow> v \<noteq> 0 \<and> v \<le> 500000) \<and>
         (\<forall>es v. engine_cc d = Some es \<and> Some v \<in> set es \<longrightarrow> 500 \<le> v \<and> v \<le> 6000)"
proof (intro conjI allI impI)
  fix ys v assume a: "year d = Some ys \<and> Some v \<in> set ys"
  then obtain x where "null_where (\<lambda>v. v < 1950 \<or> v > 2026) x = Some v"
    using clean_data_year [OF assms] by (cases "year df") auto
  then have "\<not> (v < 1950 \<or> v > 2026)" by (rule null_where_range)
  then show "1950 \<le> v" and "v \<le> 2026" by auto
next
  fix ms v assume a: "mileage d = Some ms \<and> Some v \<in> set ms"
  then obtain x where x: "null_where (\<lambda>v. v = 0) (null_where (\<lambda>v. v > 500000) x) = Some v"
    using clean_data_mileage [OF assms] by (cases "mileage df") auto
  then have "v \<noteq> 0" using null_where_range by fastforce
  moreover have "null_where (\<lambda>v. v > 500000) x = Some v" using x by (rule null_where_Some)
  then have "\<not> v > 500000" by (rule null_where_range)
  ultimately show "v \<noteq> 0" and "v \<le> 500000" by auto
next
  fix es v assume a: "engine_cc d = Some es \<and> Some v \<in> set es"
  then obtain x where "null_where (\<lambda>v. v < 500 \<or> v > 6000) x = Some v"
    using clean_data_engine_cc [OF assms] by (cases "engine_cc df") auto
  then have "\<not> (v < 500 \<or> v > 6000)" by (rule null_where_range)
  then show "500 \<le> v" and "v \<le> 6000" by auto
qed

theorem clean_data_ranges_witness:
  "clean_data 2025 range_batch = Inr range_batch_clean \<and>
   year range_batch_clean = Some [None, Some 2023] \<and>
   mileage range_batch_clean = Some [None, None] \<and>
   engine_cc range_batch_clean = Some [None, Some 1600] \<and>
   (1950::rat) \<le> 2023 \<and> (2023::rat) \<le> 2026 \<and> (500::rat) \<le> 1600 \<and> (1600::rat) \<le> 6000"
proof -
  have h: "clean_data 2025 range_batch = Inr range_batch_clean" by code_simp
  show ?thesis
    using h clean_data_ranges [OF h] by (simp add: range_batch_clean_def no_columns_def)
qed

subsection \<open>Brand and luxury flag\<close>

text \<open>
  C9. The brand step title-cases after the alias map, so a brand that lower-cases and
  trims to \<open>bmw\<close> (such as \<open>bmw\<close> or \<open>BMW\<close>) is cleaned to \<open>Bmw\<close>, and the row's
  luxury flag is False although \<open>BMW\<close> is in the luxury list. No brand at all is
  cleaned to \<open>BMW\<close>.
\<close>

theorem clean_data_bmw_not_luxury:
  assumes "clean_data cy df = Inr d" and "brand df = Some bs" and "i < length bs"
    and "bs ! i = Some b" and "py_strip (py_lower b) = ''bmw''"
  shows "(\<exists>bs' ls. brand d = Some bs' \<and> is_luxury d = Some ls \<and>
            bs' ! i = Some ''Bmw'' \<and> ls ! i = False) \<and>
         (\<forall>x. clean_brand_value x \<noteq> ''BMW'')"
proof -
  have v: "clean_brand_value b = ''Bmw''"
    using clean_brand_value_key [OF assms(5)] by (simp add: brand_key_values)
  have nl: "\<not> isin_luxury (Some ''Bmw'')" by code_simp
  have "\<exists>bs' ls. brand d = Some bs' \<and> is_luxury d = Some ls \<and>
            bs' ! i = Some ''Bmw'' \<and> ls ! i = False"
    using clean_data_brand [OF assms(1)] clean_data_is_luxury [OF assms(1,2)] assms(2,3,4) v nl
    by simp
  then show ?thesis using clean_brand_value_not_BMW by blast
qed

theorem clean_data_bmw_not_luxury_witness:
  "clean_data 2025 bmw_batch = Inr bmw_batch_clean \<and>
   py_strip (py_lower ''BMW'') = ''bmw'' \<and>
   List.member luxury_brands ''BMW'' \<and>
   (\<exists>bs' ls. brand bmw_batch_clean = Some bs' \<and> is_luxury bmw_batch_clean = Some ls \<and>
      bs' ! 1 = Some ''Bmw'' \<and> ls ! 1 = False)"
proof -
  have h: "clean_data 2025 bmw_batch = Inr bmw_batch_clean" by code_simp
  have b: "brand bmw_batch = Some [Some ''bmw'', Some ''BMW'']"
    by (simp add: bmw_batch_def no_columns_def)
  have k: "py_strip (py_lower ''BMW'') = ''bmw''" by code_simp
  have m: "List.member luxury_brands ''BMW''" by code_simp
  have i: "1 < length [Some ''bmw'', Some ''BMW'']" by simp
  have e: "[Some ''bmw'', Some ''BMW''] ! 1 = Some ''BMW''" by simp
  show ?thesis
    using clean_data_bmw_not_luxury [OF h b i e k] h k m by simp
qed

subsection \<open>Running the cleaner on its own output\<close>






subsection \<open>Validator\<close>

lemma check_required_fst: "fst (check_required st f) = fst st"
  by (cases st) (simp add: check_required_def split: option.splits)

lemma check_range_fst: "fst (check_range st r) = fst st"
  by (cases st; cases r)
     (simp add: check_range_def validate_numeric_range_def Let_def
        split: option.splits prod.splits)

lemma check_duplicates_fst: "fst (check_duplicates st) = fst st"
  by (cases st) (simp add: check_duplicates_def Let_def split: option.splits)

lemma check_prices_fst: "fst (check_prices st) = fst st"
  by (cases st)
     (auto simp add: check_prices_def validate_price_consistency_def Let_def
        split: option.splits prod.splits)

lemma foldl_check_required_fst: "fst (foldl check_required st fs) = fst st"
  by (induction fs arbitrary: st) (simp_all add: check_required_fst)

lemma foldl_check_range_fst: "fst (foldl check_range st rs) = fst st"
  by (induction rs arbitrary: st) (simp_all add: check_range_fst)

lemma validate_data_frame: "fst (validate_data df) = df"
  by (simp add: validate_data_def Let_def check_prices_fst check_duplicates_fst
      foldl_check_range_fst foldl_check_required_fst)

text \<open>
  C6. A call of \<open>validate_data\<close> leaves the batch as it was, whatever columns are
  present or absent and whatever the cells hold.
\<close>

theorem validate_data_leaves_batch: "fst (validate_data df) = df"
  by (rule validate_data_frame)











subsection \<open>Pipeline\<close>

lemma stats_total:
  "model t \<noteq> None \<Longrightarrow> year t \<noteq> None \<Longrightarrow> mileage t \<noteq> None \<Longrightarrow> fuel_type t \<noteq> None \<Longrightarrow>
   engine_cc t \<noteq> None \<Longrightarrow> price_flag t \<noteq> None \<Longrightarrow> brand t \<noteq> None \<Longrightarrow>
   \<exists>st. get_data_quality_stats (Some t) = Inr st"
  by (auto simp add: get_data_quality_stats_def)

lemma log_quality_stats_ok:
  "get_data_quality_stats (Some t) = Inr st \<Longrightarrow> nrows t \<noteq> 0 \<Longrightarrow>
   snd (log_quality_stats st) = None"
  by (auto simp add: get_data_quality_stats_def log_quality_stats_def percent_missing_def
      split: option.splits prod.splits)

lemma run_after_clean_fails:
  assumes "\<not> empty raw" and "clean_data cy raw = Inl e"
  shows "fst (run_full_pipeline cy raw store) = Inl e \<and>
         (INFO, Cleaning) \<in> set (fst (snd (run_full_pipeline cy raw store)))"
proof -
  obtain rep where v: "validate_data raw = (raw, rep)"
    using validate_data_frame [of raw] by (cases "validate_data raw") simp
  show ?thesis using assms by (simp add: run_full_pipeline_def v failed_def Let_def)
qed

lemma run_after_clean_ok:
  assumes "\<not> empty raw" and "clean_data cy raw = Inr c"
  shows "fst (run_full_pipeline cy raw store) =
           (case get_data_quality_stats (Some c) of
              Inl e \<Rightarrow> Inl e
            | Inr st \<Rightarrow> Inr (Some st)) \<and>
         (INFO, Cleaning) \<in> set (fst (snd (run_full_pipeline cy raw store))) \<and>
         (INFO, Loading) \<in> set (fst (snd (run_full_pipeline cy raw store))) \<and>
         snd (snd (run_full_pipeline cy raw store)) = Some c"
proof -
  obtain rep where v: "validate_data raw = (raw, rep)"
    using validate_data_frame [of raw] by (cases "validate_data raw") simp
  obtain rep2 where v2: "validate_data c = (c, rep2)"
    using validate_data_frame [of c] by (cases "validate_data c") simp
  have n: "nrows c \<noteq> 0" using assms clean_data_nrows [OF assms(2)] by (simp add: empty_def)
  show ?thesis
  proof (cases "get_data_quality_stats (Some c)")
    case (Inl e)
    then show ?thesis using assms
      by (simp add: run_full_pipeline_def v v2 failed_def Let_def load_clean_data_def)
  next
    case (Inr st)
    obtain ls where "log_quality_stats st = (ls, None)"
      using log_quality_stats_ok [OF Inr n] by (cases "log_quality_stats st") simp
    then show ?thesis using assms Inr
      by (simp add: run_full_pipeline_def v v2 failed_def Let_def load_clean_data_def)
  qed
qed

text \<open>
  C2. The claim says that a run whose first report has failed on a missing required
  column raises instead of going on to the Clean and Load stages. The run logs the
  report and never reads its flag: the batch without a \<open>url\<close> column fails validation,
  is cleaned and loaded, and the run returns the quality statistics.
\<close>

theorem run_full_pipeline_missing_url_completes:
  "passed_validation (snd (validate_data no_url_batch)) = False \<and>
   fst (run_full_pipeline 2025 no_url_batch None) = Inr (Some no_url_stats) \<and>
   List.member (fst (snd (run_full_pipeline 2025 no_url_batch None))) (INFO, Loading) \<and>
   List.member (fst (snd (run_full_pipeline 2025 no_url_batch None))) (INFO, Completed)"
  by code_simp

text \<open>
  C2, as amended. For every batch that is not empty the run reaches the Clean stage
  whatever the first report says, and it raises exactly what the cleaner or the quality
  queries raise: the KeyError of the model step on a batch with a model column and no
  brand column, or the OperationalError of a query on a column the cleaned batch lacks.
  A batch with the columns brand, model, year, mileage, fuel_type, engine_cc, price_usd
  and price_colones is cleaned and loaded, and the run returns the statistics.
\<close>

theorem run_full_pipeline_ignores_report:
  assumes "\<not> empty raw"
  shows "(INFO, Cleaning) \<in> set (fst (snd (run_full_pipeline cy raw store))) \<and>
         fst (run_full_pipeline cy raw store) =
           (case clean_data cy raw of
              Inl e \<Rightarrow> Inl e
            | Inr c \<Rightarrow>
                (case get_data_quality_stats (Some c) of
                   Inl e \<Rightarrow> Inl e
                 | Inr st \<Rightarrow> Inr (Some st))) \<and>
         (brand raw \<noteq> None \<and> model raw \<noteq> None \<and> year raw \<noteq> None \<and> mileage raw \<noteq> None \<and>
          fuel_type raw \<noteq> None \<and> engine_cc raw \<noteq> None \<and> price_usd raw \<noteq> None \<and>
          price_colones raw \<noteq> None \<longrightarrow>
            (\<exists>c st. fst (run_full_pipeline cy raw store) = Inr (Some st) \<and>
                    snd (snd (run_full_pipeline cy raw store)) = Some c \<and>
                    (INFO, Loading) \<in> set (fst (snd (run_full_pipeline cy raw store)))))"
proof (intro conjI impI)
  show "(INFO, Cleaning) \<in> set (fst (snd (run_full_pipeline cy raw store)))"
    using run_after_clean_fails [OF assms] run_after_clean_ok [OF assms]
    by (cases "clean_data cy raw") auto
  show "fst (run_full_pipeline cy raw store) =
           (case clean_data cy raw of
              Inl e \<Rightarrow> Inl e
            | Inr c \<Rightarrow>
                (case get_data_quality_stats (Some c) of
                   Inl e \<Rightarrow> Inl e
                 | Inr st \<Rightarrow> Inr (Some st)))"
    using run_after_clean_fails [OF assms] run_after_clean_ok [OF assms]
    by (cases "clean_data cy raw") auto
next
  assume p: "brand raw \<noteq> None \<and> model raw \<noteq> None \<and> year raw \<noteq> None \<and> mileage raw \<noteq> None \<and>
          fuel_type raw \<noteq> None \<and> engine_cc raw \<noteq> None \<and> price_usd raw \<noteq> None \<and>
          price_colones raw \<noteq> None"
  then obtain c where c: "clean_data cy raw = Inr c" using clean_data_total [of raw cy] by blast
  have "\<exists>st. get_data_quality_stats (Some c) = Inr st"
    using clean_data_present [OF c] p by (intro stats_total) simp_all
  then obtain st where st: "get_data_quality_stats (Some c) = Inr st" by blast
  show "\<exists>c st. fst (run_full_pipeline cy raw store) = Inr (Some st) \<and>
                    snd (snd (run_full_pipeline cy raw store)) = Some c \<and>
                    (INFO, Loading) \<in> set (fst (snd (run_full_pipeline cy raw store)))"
    using run_after_clean_ok [OF assms c] st by simp
qed

theorem run_full_pipeline_ignores_report_witness:
  "\<not> empty no_url_batch \<and>
   \<not> passed_validation (snd (validate_data no_url_batch)) \<and>
   (INFO, Cleaning) \<in> set (fst (snd (run_full_pipeline 2025 no_url_batch None))) \<and>
   (\<exists>c st. fst (run_full_pipeline 2025 no_url_batch None) = Inr (Some st) \<and>
      snd (snd (run_full_pipeline 2025 no_url_batch None)) = Some c)"
proof -
  have e: "\<not> empty no_url_batch" by code_simp
  have f: "\<not> passed_validation (snd (validate_data no_url_batch))" by code_simp
  have p: "brand no_url_batch \<noteq> None \<and> model no_url_batch \<noteq> None \<and> year no_url_batch \<noteq> None \<and>
           mileage no_url_batch \<noteq> None \<and> fuel_type no_url_batch \<noteq> None \<and>
           engine_cc no_url_batch \<noteq> None \<and> price_usd no_url_batch \<noteq> None \<and>
           price_colones no_url_batch \<noteq> None"
    by (simp add: no_url_batch_def no_columns_def)
  show ?thesis
    using run_full_pipeline_ignores_report [OF e, of 2025 None] e f p by blast
qed

end
